theory Spec2Isabelle
  imports Complex_Main
begin

section \<open>The transform kernel of SpectraDownshift (Spectradownshift/processor.py)\<close>

text \<open>
  The kernel is the class \<^verbatim>\<open>AudioProcessor\<close>: a constructor, two private helpers
  (\<^verbatim>\<open>_apply_zero_phase_filter\<close>, \<^verbatim>\<open>_resample\<close>) and the two public operations
  \<^verbatim>\<open>prepare\<close> and \<^verbatim>\<open>restore\<close>. Every signal-processing primitive it calls lives in
  an optional third-party library (SciPy, soxr) that the module binds at import time, or
  binds to \<^verbatim>\<open>None\<close> when the import fails.

  Modelling decisions:
  \<^item> Python exceptions are values: a call returns \<open>error + result\<close>, \<open>Inl\<close> the exception.
  \<^item> A method takes the object \<open>self\<close> and returns it next to its result, so that what a
    call does to the fields is a statement about the returned object.
  \<^item> A NumPy array (of one dimension or more) is the list of its rows along axis 0
    (\<^verbatim>\<open>len(data)\<close> is the length of that list) together with the kind of its dtype.
    The kernel never looks inside a row, so the row type is a type variable.
  \<^item> The library functions are fields of a record \<open>libs\<close>: \<open>None\<close> where the module
    bound the name to \<^verbatim>\<open>None\<close>, otherwise a function that returns a new array or raises.
  \<^item> A Python \<^verbatim>\<open>float\<close> is a real number: the rounding error of binary64 arithmetic is
    not part of the model. Python integers are \<open>int\<close>.
  \<^item> \<^verbatim>\<open>print\<close> calls are left out (console output is no part of a result).
\<close>

subsection \<open>Exceptions, arrays and the object state\<close>

datatype error = TypeError | ImportError | ValueError | ZeroDivisionError

text \<open>The kinds of dtype that \<^verbatim>\<open>np.issubdtype(data.dtype, np.floating)\<close> tells apart.\<close>

datatype dtype_kind = Floating | SignedInteger | UnsignedInteger | ComplexFloating | Boolean

fun issubdtype_floating :: "dtype_kind \<Rightarrow> bool" where
  "issubdtype_floating Floating = True"
| "issubdtype_floating _ = False"

text \<open>What a caller may pass as \<^verbatim>\<open>data\<close>: a NumPy array or any other object.\<close>

datatype 'a pyobj = Ndarray dtype_kind "'a list" | NotNdarray

record 'a audio_processor =
  data :: "'a list"
  original_sr :: int
  cutoff_freq :: int
  intermediate_sr :: real

subsection \<open>The optional libraries\<close>

text \<open>
  \<^verbatim>\<open>scipy_resample(x, num, axis=0)\<close>, \<^verbatim>\<open>butter(N, Wn, btype='low', analog=False)\<close>
  (it returns the coefficient pair \<^verbatim>\<open>(b, a)\<close>), \<^verbatim>\<open>filtfilt(b, a, x, axis=0)\<close> and
  \<^verbatim>\<open>soxr.resample(x, in_rate, out_rate, quality='VHQ')\<close>.
\<close>

record 'a libs =
  scipy_resample :: "('a list \<Rightarrow> int \<Rightarrow> error + 'a list) option"
  butter :: "(int \<Rightarrow> real \<Rightarrow> error + real list \<times> real list) option"
  filtfilt :: "(real list \<times> real list \<Rightarrow> 'a list \<Rightarrow> error + 'a list) option"
  soxr_resample :: "('a list \<Rightarrow> real \<Rightarrow> real \<Rightarrow> error + 'a list) option"

subsection \<open>Rounding\<close>

text \<open>
  \<^verbatim>\<open>int(np.round(x))\<close>: NumPy rounds to the nearest integer and a tie to the even
  neighbour.
\<close>

definition np_round :: "real \<Rightarrow> int" where
  "np_round x =
     (let f = \<lfloor>x\<rfloor>; d = x - of_int f
      in if d < 1 / 2 then f else if 1 / 2 < d then f + 1 else if even f then f else f + 1)"

subsection \<open>The constructor\<close>

definition init :: "'a pyobj \<Rightarrow> int \<Rightarrow> int \<Rightarrow> error + 'a audio_processor" where
  "init dat sr cutoff =
     (case dat of
        NotNdarray \<Rightarrow> Inl TypeError
      | Ndarray k rows \<Rightarrow>
          if issubdtype_floating k
          then Inr \<lparr>data = rows, original_sr = sr, cutoff_freq = cutoff,
                    intermediate_sr = of_int (cutoff * 2)\<rparr>
          else Inl TypeError)"

subsection \<open>The helpers\<close>

definition apply_zero_phase_filter ::
  "'a libs \<Rightarrow> 'a list \<Rightarrow> int \<Rightarrow> int \<Rightarrow> 'a audio_processor
     \<Rightarrow> (error + 'a list) \<times> 'a audio_processor" where
  "apply_zero_phase_filter L dat sr passes self =
     (case (butter L, filtfilt L) of
        (Some design, Some run) \<Rightarrow>
          (let final_order = 8 * passes;
               nyquist = 0.5 * real_of_int sr
           in if nyquist \<le> real_of_int (cutoff_freq self) then (Inr dat, self)
              else if nyquist = 0 then (Inl ZeroDivisionError, self)
              else (let normal_cutoff = real_of_int (cutoff_freq self) / nyquist
                    in case design final_order normal_cutoff of
                         Inl e \<Rightarrow> (Inl e, self)
                       | Inr ba \<Rightarrow> (run ba dat, self)))
      | _ \<Rightarrow> (Inl ImportError, self))"

definition resample ::
  "'a libs \<Rightarrow> 'a list \<Rightarrow> real \<Rightarrow> real \<Rightarrow> string \<Rightarrow> 'a audio_processor
     \<Rightarrow> (error + 'a list) \<times> 'a audio_processor" where
  "resample L dat in_sr out_sr engine self =
     (if engine = ''scipy'' then
        (case scipy_resample L of
           None \<Rightarrow> (Inl ImportError, self)
         | Some rs \<Rightarrow>
             if in_sr = 0 then (Inl ZeroDivisionError, self)
             else (let num_samples = np_round (real (length dat) * out_sr / in_sr)
                   in (rs dat num_samples, self)))
      else if engine = ''soxr'' then
        (case soxr_resample L of
           None \<Rightarrow> (Inl ImportError, self)
         | Some rs \<Rightarrow> (rs dat in_sr out_sr, self))
      else (Inl ValueError, self))"

subsection \<open>The two operations\<close>

text \<open>
  \<^verbatim>\<open>prepare\<close> divides by \<^verbatim>\<open>original_sr\<close> for its log line before it resamples;
  \<^verbatim>\<open>restore\<close> divides by \<^verbatim>\<open>intermediate_sr\<close> for its log line after it has resampled.
  Both divisions raise on a zero divisor, so they stay in the model.
\<close>

definition prepare ::
  "'a libs \<Rightarrow> string \<Rightarrow> 'a audio_processor
     \<Rightarrow> (error + 'a list \<times> int) \<times> 'a audio_processor" where
  "prepare L resampler_engine self =
     (if original_sr self = 0 then (Inl ZeroDivisionError, self)
      else
        (case resample L (data self) (intermediate_sr self) (real_of_int (original_sr self))
                resampler_engine self of
           (Inl e, s1) \<Rightarrow> (Inl e, s1)
         | (Inr processed_data, s1) \<Rightarrow>
             if resampler_engine = ''soxr'' then
               (case apply_zero_phase_filter L processed_data (original_sr s1) 3 s1 of
                  (Inl e, s2) \<Rightarrow> (Inl e, s2)
                | (Inr filtered, s2) \<Rightarrow> (Inr (filtered, original_sr s2), s2))
             else (Inr (processed_data, original_sr s1), s1)))"

definition restore ::
  "'a libs \<Rightarrow> string \<Rightarrow> 'a audio_processor
     \<Rightarrow> (error + 'a list \<times> int) \<times> 'a audio_processor" where
  "restore L resampler_engine self =
     (case resample L (data self) (real_of_int (original_sr self)) (intermediate_sr self)
             resampler_engine self of
        (Inl e, s1) \<Rightarrow> (Inl e, s1)
      | (Inr data_converted, s1) \<Rightarrow>
          (let final_sr = original_sr s1
           in if intermediate_sr s1 = 0 then (Inl ZeroDivisionError, s1)
              else (Inr (data_converted, final_sr), s1)))"

subsection \<open>Example libraries\<close>

text \<open>
  Small stand-ins for the libraries, for running the kernel on concrete inputs: a
  nearest-neighbour resampler that delivers the requested number of rows, and a filter
  that scales every sample.
\<close>

definition nearest_resample :: "'a list \<Rightarrow> int \<Rightarrow> error + 'a list" where
  "nearest_resample xs num =
     (if xs = [] \<or> num \<le> 0 then Inl ValueError
      else Inr (map (\<lambda>i. xs ! (i * length xs div nat num)) [0..<nat num]))"

definition nearest_soxr :: "'a list \<Rightarrow> real \<Rightarrow> real \<Rightarrow> error + 'a list" where
  "nearest_soxr xs in_rate out_rate =
     (if in_rate \<le> 0 \<or> out_rate \<le> 0 then Inl ValueError
      else if xs = [] then Inr []
      else nearest_resample xs (\<lceil>real (length xs) * out_rate / in_rate\<rceil>))"

definition gain_butter :: "int \<Rightarrow> real \<Rightarrow> error + real list \<times> real list" where
  "gain_butter order wn =
     (if 0 < wn \<and> wn < 1 \<and> 0 < order then Inr ([wn], [1]) else Inl ValueError)"

definition gain_filtfilt :: "real list \<times> real list \<Rightarrow> real list \<Rightarrow> error + real list" where
  "gain_filtfilt ba xs = Inr (map (\<lambda>x. x * sum_list (fst ba)) xs)"

definition all_libs :: "real libs" where
  "all_libs = \<lparr>scipy_resample = Some nearest_resample, butter = Some gain_butter,
                filtfilt = Some gain_filtfilt, soxr_resample = Some nearest_soxr\<rparr>"

definition soxr_only :: "real libs" where
  "soxr_only = \<lparr>scipy_resample = None, butter = None, filtfilt = None,
                 soxr_resample = Some nearest_soxr\<rparr>"

definition scipy_only :: "real libs" where
  "scipy_only = \<lparr>scipy_resample = Some nearest_resample, butter = Some gain_butter,
                  filtfilt = Some gain_filtfilt, soxr_resample = None\<rparr>"

text \<open>Example objects: what the constructor builds from three samples at rate 8.\<close>

definition clip :: "real audio_processor" where
  "clip = \<lparr>data = [1, 2, 3], original_sr = 8, cutoff_freq = 3, intermediate_sr = 6\<rparr>"

definition zero_cutoff_clip :: "real audio_processor" where
  "zero_cutoff_clip =
     \<lparr>data = [1, 2, 3], original_sr = 8, cutoff_freq = 0, intermediate_sr = 0\<rparr>"

definition negative_cutoff_clip :: "real audio_processor" where
  "negative_cutoff_clip =
     \<lparr>data = [1, 2, 3], original_sr = 8, cutoff_freq = - 3, intermediate_sr = - 6\<rparr>"

definition empty_clip :: "real audio_processor" where
  "empty_clip = \<lparr>data = [], original_sr = 8, cutoff_freq = 3, intermediate_sr = 6\<rparr>"

definition one_sample_clip :: "real audio_processor" where
  "one_sample_clip = \<lparr>data = [1], original_sr = 1, cutoff_freq = 1, intermediate_sr = 2\<rparr>"

definition short_clip :: "real audio_processor" where
  "short_clip = \<lparr>data = [1], original_sr = 8, cutoff_freq = 1, intermediate_sr = 2\<rparr>"

subsection \<open>Vocabulary of the properties\<close>

text \<open>
  A resampler \<open>rs\<close> delivers on a call when it returns normally with exactly the
  number of rows it was asked for (the documented meaning of the argument \<^verbatim>\<open>num\<close> of
  \<^verbatim>\<open>scipy.signal.resample\<close>).
\<close>

definition delivers :: "('a list \<Rightarrow> int \<Rightarrow> error + 'a list) \<Rightarrow> 'a list \<Rightarrow> int \<Rightarrow> bool" where
  "delivers rs xs num = (case rs xs num of Inl e \<Rightarrow> False | Inr ys \<Rightarrow> int (length ys) = num)"

text \<open>
  The specification names four kinds of failure. The code raises built-in exceptions:
  \<^verbatim>\<open>TypeError\<close> for a malformed buffer, \<^verbatim>\<open>ImportError\<close> for a library that is not
  loaded, \<^verbatim>\<open>ValueError\<close> for an unknown engine. No exception of the code stands for
  an invalid cutoff, and a \<^verbatim>\<open>ZeroDivisionError\<close> is none of the four kinds.
\<close>

datatype spec_failure = InvalidInput | InvalidCutoff | EngineUnavailable | UnsupportedEngine

fun spec_failure_of :: "error \<Rightarrow> spec_failure option" where
  "spec_failure_of TypeError = Some InvalidInput"
| "spec_failure_of ImportError = Some EngineUnavailable"
| "spec_failure_of ValueError = Some UnsupportedEngine"
| "spec_failure_of ZeroDivisionError = None"

definition fails_with :: "spec_failure \<Rightarrow> error + 'b \<Rightarrow> bool" where
  "fails_with f r = (case r of Inl e \<Rightarrow> spec_failure_of e = Some f | Inr v \<Rightarrow> False)"

section \<open>Lemmas\<close>

subsection \<open>Rounding lemmas\<close>

lemma np_round_err: "\<bar>real_of_int (np_round x) - x\<bar> \<le> 1 / 2"
  unfolding np_round_def Let_def by (auto simp: abs_le_iff)

lemma np_round_near:
  assumes "\<bar>d\<bar> < 1 / 2"
  shows "np_round (real_of_int n + d) = n"
proof (cases "0 \<le> d")
  case True
  with assms have "\<lfloor>real_of_int n + d\<rfloor> = n" by (intro floor_unique) auto
  with assms True show ?thesis by (simp add: np_round_def Let_def)
next
  case False
  with assms have "\<lfloor>real_of_int n + d\<rfloor> = n - 1" by (intro floor_unique) auto
  with assms False show ?thesis by (simp add: np_round_def Let_def)
qed

lemma np_round_pos:
  assumes "1 \<le> x"
  shows "0 < np_round x"
proof -
  have "0 < real_of_int (np_round x)" using np_round_err [of x] assms by linarith
  then show ?thesis by simp
qed

lemma np_round_nonpos:
  assumes "x \<le> 0"
  shows "np_round x \<le> 0"
proof -
  have "real_of_int (np_round x) < 1" using np_round_err [of x] assms by linarith
  then show ?thesis by simp
qed

lemma np_round_pos_iff: "0 < np_round x \<longleftrightarrow> 1 / 2 < x"
proof
  assume "0 < np_round x"
  show "1 / 2 < x"
  proof (rule ccontr)
    assume "\<not> 1 / 2 < x"
    then have x: "x \<le> 1 / 2" by simp
    show False
    proof (cases "x < 0")
      case True
      then have "np_round x \<le> 0" by (intro np_round_nonpos) simp
      with \<open>0 < np_round x\<close> show False by simp
    next
      case False
      with x have "\<lfloor>x\<rfloor> = 0" by (intro floor_unique) auto
      with x have "np_round x = 0" by (simp add: np_round_def Let_def)
      with \<open>0 < np_round x\<close> show False by simp
    qed
  qed
next
  assume "1 / 2 < x"
  then have "0 < real_of_int (np_round x)"
  proof (cases "x < 1")
    case True
    with \<open>1 / 2 < x\<close> have "\<lfloor>x\<rfloor> = 0" by (intro floor_unique) auto
    with \<open>1 / 2 < x\<close> show ?thesis by (simp add: np_round_def Let_def)
  next
    case False
    then show ?thesis using np_round_err [of x] by linarith
  qed
  then show "0 < np_round x" by simp
qed

text \<open>
  What the model leaves out of binary64 arithmetic does not change a sample count of
  realistic size. The count is the rounding of a quotient \<open>a / b\<close> of two integers
  (\<open>a\<close> is \<open>N * R\<close> or \<open>N * 2 * C\<close>, \<open>b\<close> is \<open>2 * C\<close> or \<open>R\<close>). Let \<open>d\<close> be any
  number within the relative error \<open>2\<^sup>-\<^sup>5\<^sup>3\<close> of \<open>a / b\<close> that is \<open>a / b\<close> itself when
  \<open>a / b\<close> is a multiple of one half, as the correctly rounded binary64 quotient is. If
  \<open>a < 2\<^sup>5\<^sup>2\<close>, then \<open>d\<close> rounds to the same integer as \<open>a / b\<close>.
\<close>

lemma np_round_between:
  assumes "real_of_int k / 2 < x" and "x < (real_of_int k + 1) / 2"
  shows "np_round x = (k + 1) div 2"
proof (cases "even k")
  case True
  then obtain m where k: "k = 2 * m" by (elim evenE)
  with assms have "\<lfloor>x\<rfloor> = m" by (intro floor_unique) auto
  moreover from k assms have "x - real_of_int m < 1 / 2" by simp
  ultimately show ?thesis using k by (simp add: np_round_def Let_def)
next
  case False
  then obtain m where k: "k = 2 * m + 1" by (elim oddE)
  with assms have "\<lfloor>x\<rfloor> = m" by (intro floor_unique) auto
  moreover from k assms have "1 / 2 < x - real_of_int m" by simp
  ultimately show ?thesis using k by (simp add: np_round_def Let_def)
qed

lemma np_round_binary64:
  fixes a b :: int and d :: real
  assumes a: "0 \<le> a" "a < 2 ^ 52" and b: "0 < b"
    and err: "\<bar>d - real_of_int a / real_of_int b\<bar> \<le> (real_of_int a / real_of_int b) / 2 ^ 53"
    and exact: "(2 * a) mod b = 0 \<Longrightarrow> d = real_of_int a / real_of_int b"
  shows "np_round d = np_round (real_of_int a / real_of_int b)"
proof (cases "(2 * a) mod b = 0")
  case True
  then show ?thesis using exact by simp
next
  case False
  let ?q = "real_of_int a / real_of_int b"
  define k where "k = (2 * a) div b"
  define r where "r = (2 * a) mod b"
  have "0 \<le> r" and "r < b" and "r \<noteq> 0"
    using False b by (simp_all add: r_def)
  then have r: "1 \<le> r" "r \<le> b - 1" by linarith+
  have "2 * a = k * b + r" by (simp add: k_def r_def)
  then have "2 * real_of_int a = real_of_int k * real_of_int b + real_of_int r"
    by (metis of_int_add of_int_mult of_int_numeral)
  then have "?q = real_of_int k / 2 + real_of_int r / (2 * real_of_int b)"
    using b by (simp add: field_simps)
  moreover define g where "g = real_of_int r / (2 * real_of_int b)"
  moreover define u where "u = 1 / (2 * real_of_int b)"
  ultimately have q: "?q = real_of_int k / 2 + g" by simp
  have gap: "u \<le> g" "g \<le> 1 / 2 - u"
    using r b by (simp_all add: g_def u_def field_simps)
  have "?q / 2 ^ 53 < u"
  proof -
    have "real_of_int a < 2 ^ 52" using a(2) by (metis of_int_less_numeral_power_cancel_iff)
    then have "real_of_int a / 2 ^ 53 < 1 / 2" by simp
    moreover have "0 < real_of_int b" using b by simp
    ultimately have "real_of_int a / 2 ^ 53 / real_of_int b < 1 / 2 / real_of_int b"
      by (rule divide_strict_right_mono)
    then show ?thesis by (simp add: u_def field_simps)
  qed
  with err have close: "\<bar>d - ?q\<bar> < u" by linarith
  have lo: "real_of_int k / 2 < ?q" and hi: "?q < (real_of_int k + 1) / 2"
    using q gap close by (simp_all add: add_divide_distrib)
  have "real_of_int k / 2 < d" and "d < (real_of_int k + 1) / 2"
    using q gap close by (simp_all add: add_divide_distrib abs_less_iff)
  note this lo hi
  then show ?thesis using np_round_between [of k d] np_round_between [of k ?q] by simp
qed

text \<open>
  Stretching a count by \<open>r / c\<close> with \<open>c < r\<close>, rounding, shrinking by \<open>c / r\<close> and
  rounding again gives the count back: the first rounding error, at most a half, is
  scaled by \<open>c / r < 1\<close> before the second rounding.
\<close>

lemma roundtrip_count:
  assumes "0 < c" and "c < r"
  shows "np_round (real_of_int (np_round (real n * r / c)) * c / r) = int n"
proof -
  define m where "m = np_round (real n * r / c)"
  define e where "e = real_of_int m - real n * r / c"
  have e: "\<bar>e\<bar> \<le> 1 / 2" unfolding e_def m_def by (rule np_round_err)
  have "real_of_int m * c / r = real n + e * c / r"
    using assms by (simp add: e_def field_simps)
  moreover have "\<bar>e * c / r\<bar> < 1 / 2"
  proof -
    have "\<bar>e * c / r\<bar> = \<bar>e\<bar> * (c / r)" using assms by (simp add: abs_mult)
    also have "\<dots> \<le> (1 / 2) * (c / r)" using e assms by (intro mult_right_mono) auto
    also have "\<dots> < (1 / 2) * 1" using assms by (intro mult_strict_left_mono) auto
    finally show ?thesis by simp
  qed
  ultimately show ?thesis
    using np_round_near [of "e * c / r" "int n"] by (simp add: m_def)
qed

subsection \<open>The methods leave the object as it is\<close>

lemma snd_apply_zero_phase_filter:
  "snd (apply_zero_phase_filter L dat sr passes self) = self"
  by (auto simp: apply_zero_phase_filter_def Let_def split: option.splits sum.splits)

lemma snd_resample: "snd (resample L dat in_sr out_sr engine self) = self"
  by (auto simp: resample_def Let_def split: option.splits)

lemma resample_pair:
  "resample L dat in_sr out_sr engine self
   = (fst (resample L dat in_sr out_sr engine self), self)"
  using snd_resample [of L dat in_sr out_sr engine self]
  by (cases "resample L dat in_sr out_sr engine self") simp

lemma apply_zero_phase_filter_pair:
  "apply_zero_phase_filter L dat sr passes self
   = (fst (apply_zero_phase_filter L dat sr passes self), self)"
  using snd_apply_zero_phase_filter [of L dat sr passes self]
  by (cases "apply_zero_phase_filter L dat sr passes self") simp

lemma snd_prepare: "snd (prepare L engine self) = self"
proof (cases "original_sr self = 0")
  case True
  then show ?thesis by (simp add: prepare_def)
next
  case False
  let ?r = "fst (resample L (data self) (intermediate_sr self)
      (real_of_int (original_sr self)) engine self)"
  have r: "resample L (data self) (intermediate_sr self)
      (real_of_int (original_sr self)) engine self = (?r, self)"
    by (rule resample_pair)
  show ?thesis
  proof (cases ?r)
    case (Inl e)
    with False r show ?thesis by (simp add: prepare_def)
  next
    case (Inr d)
    let ?f = "fst (apply_zero_phase_filter L d (original_sr self) 3 self)"
    have "apply_zero_phase_filter L d (original_sr self) 3 self = (?f, self)"
      by (rule apply_zero_phase_filter_pair)
    with Inr False r show ?thesis
      by (cases ?f) (simp_all add: prepare_def)
  qed
qed

lemma snd_restore: "snd (restore L engine self) = self"
proof -
  let ?r = "fst (resample L (data self) (real_of_int (original_sr self))
      (intermediate_sr self) engine self)"
  have "resample L (data self) (real_of_int (original_sr self))
      (intermediate_sr self) engine self = (?r, self)"
    by (rule resample_pair)
  then show ?thesis by (cases ?r) (simp_all add: restore_def Let_def)
qed

subsection \<open>What the precision engine asks of its library\<close>

lemma prepare_scipy:
  assumes "scipy_resample L = Some rs"
    and "original_sr self \<noteq> 0" and "intermediate_sr self \<noteq> 0"
  shows "fst (prepare L ''scipy'' self)
         = (case rs (data self)
                  (np_round (real (length (data self)) * real_of_int (original_sr self)
                     / intermediate_sr self)) of
              Inl e \<Rightarrow> Inl e
            | Inr ys \<Rightarrow> Inr (ys, original_sr self))"
  using assms by (simp add: prepare_def resample_def split: sum.splits)

lemma restore_scipy:
  assumes "scipy_resample L = Some rs"
    and "original_sr self \<noteq> 0" and "intermediate_sr self \<noteq> 0"
  shows "fst (restore L ''scipy'' self)
         = (case rs (data self)
                  (np_round (real (length (data self)) * intermediate_sr self
                     / real_of_int (original_sr self))) of
              Inl e \<Rightarrow> Inl e
            | Inr ys \<Rightarrow> Inr (ys, original_sr self))"
  using assms by (simp add: restore_def resample_def split: sum.splits)

lemma init_floating:
  "init (Ndarray Floating xs) R C
   = Inr \<lparr>data = xs, original_sr = R, cutoff_freq = C, intermediate_sr = 2 * real_of_int C\<rparr>"
  by (simp add: init_def)

lemma prepare_count:
  assumes "init (Ndarray Floating xs) R C = Inr self"
    and "C \<noteq> 0" and "R \<noteq> 0"
    and "scipy_resample L = Some rs"
    and "delivers rs xs (np_round (real (length xs) * real_of_int R / (2 * real_of_int C)))"
  shows "\<exists>ys. fst (prepare L ''scipy'' self) = Inr (ys, R)
            \<and> int (length ys) = np_round (real (length xs) * real_of_int R / (2 * real_of_int C))"
proof -
  from assms(1) have "data self = xs" "original_sr self = R"
      "intermediate_sr self = 2 * real_of_int C"
    by (auto simp: init_floating)
  with assms show ?thesis
    using prepare_scipy [of L rs self]
    by (auto simp: delivers_def split: sum.splits)
qed

lemma restore_count:
  assumes "init (Ndarray Floating xs) R C = Inr self"
    and "C \<noteq> 0" and "R \<noteq> 0"
    and "scipy_resample L = Some rs"
    and "delivers rs xs (np_round (real (length xs) * (2 * real_of_int C) / real_of_int R))"
  shows "\<exists>ys. fst (restore L ''scipy'' self) = Inr (ys, R)
            \<and> int (length ys) = np_round (real (length xs) * (2 * real_of_int C) / real_of_int R)"
proof -
  from assms(1) have "data self = xs" "original_sr self = R"
      "intermediate_sr self = 2 * real_of_int C"
    by (auto simp: init_floating)
  with assms show ?thesis
    using restore_scipy [of L rs self]
    by (auto simp: delivers_def split: sum.splits)
qed

lemma nearest_resample_delivers:
  "xs \<noteq> [] \<Longrightarrow> 0 < num \<Longrightarrow> delivers nearest_resample xs num"
  by (simp add: delivers_def nearest_resample_def)

lemma never_invalid_cutoff: "\<not> fails_with InvalidCutoff r"
proof (cases r)
  case (Inl e)
  then show ?thesis by (cases e) (simp_all add: fails_with_def)
next
  case (Inr v)
  then show ?thesis by (simp add: fails_with_def)
qed

section \<open>The claims\<close>

subsection \<open>Lengths with the precision engine\<close>

text \<open>
  C1. Round-trip length law. For a non-empty floating-point buffer of length \<open>N\<close>, a rate
  \<open>R\<close> and a cutoff \<open>C\<close> with \<open>0 < C < R / 2\<close>, and a SciPy resampler that delivers every
  positive count it is asked for: \<^verbatim>\<open>prepare\<close> with the engine \<^verbatim>\<open>'scipy'\<close> returns a
  buffer, an \<^verbatim>\<open>AudioProcessor\<close> can be built from that buffer with the same \<open>R\<close> and
  \<open>C\<close>, and its \<^verbatim>\<open>restore\<close> with the same engine returns a buffer whose length
  differs from \<open>N\<close> by at most one.
\<close>

theorem roundtrip_length:
  assumes "xs \<noteq> []" and "0 < C" and "2 * C < R"
    and "scipy_resample L = Some rs"
    and contract: "\<And>us n. us \<noteq> [] \<Longrightarrow> 0 < n \<Longrightarrow> delivers rs us n"
  shows "\<exists>p ys q zs.
           init (Ndarray Floating xs) R C = Inr p
         \<and> fst (prepare L ''scipy'' p) = Inr (ys, R)
         \<and> init (Ndarray Floating ys) R C = Inr q
         \<and> fst (restore L ''scipy'' q) = Inr (zs, R)
         \<and> \<bar>int (length zs) - int (length xs)\<bar> \<le> 1"
proof -
  let ?c = "2 * real_of_int C" and ?r = "real_of_int R"
  let ?m = "np_round (real (length xs) * ?r / ?c)"
  have c: "0 < ?c" and cr: "?c < ?r" using assms(2,3) by linarith+
  have nz: "C \<noteq> 0" "R \<noteq> 0" using assms(2,3) by auto
  define p where "p = \<lparr>data = xs, original_sr = R, cutoff_freq = C,
    intermediate_sr = 2 * real_of_int C\<rparr>"
  have p: "init (Ndarray Floating xs) R C = Inr p" by (simp add: init_floating p_def)
  have "1 \<le> real (length xs)" using assms(1) by (cases xs) auto
  moreover have "1 \<le> ?r / ?c" using c cr by simp
  ultimately have "1 * 1 \<le> real (length xs) * (?r / ?c)" by (intro mult_mono) auto
  then have m: "0 < ?m" by (intro np_round_pos) simp
  have "delivers rs xs ?m" using assms(1) m by (rule contract)
  with p nz assms(4) obtain ys where ys: "fst (prepare L ''scipy'' p) = Inr (ys, R)"
      "int (length ys) = ?m"
    using prepare_count [of xs R C p L rs] by auto
  with m have ne: "ys \<noteq> []" by auto
  define q where "q = \<lparr>data = ys, original_sr = R, cutoff_freq = C,
    intermediate_sr = 2 * real_of_int C\<rparr>"
  have q: "init (Ndarray Floating ys) R C = Inr q" by (simp add: init_floating q_def)
  have count: "np_round (real (length ys) * ?c / ?r) = int (length xs)"
  proof -
    have "real (length ys) = real_of_int ?m" using ys(2) by (metis of_int_of_nat_eq)
    then show ?thesis using roundtrip_count [OF c cr, of "length xs"] by simp
  qed
  have "0 < int (length xs)" using assms(1) by simp
  with count ne have "delivers rs ys (np_round (real (length ys) * ?c / ?r))"
    by (intro contract) auto
  with q nz assms(4) obtain zs where zs: "fst (restore L ''scipy'' q) = Inr (zs, R)"
      "int (length zs) = np_round (real (length ys) * ?c / ?r)"
    using restore_count [of ys R C q L rs] by auto
  with count have "\<bar>int (length zs) - int (length xs)\<bar> \<le> 1" by simp
  with p ys(1) q zs(1) show ?thesis by blast
qed

theorem roundtrip_length_witness:
  "[1, 2, 3 :: real] \<noteq> [] \<and> (0 :: int) < 3 \<and> 2 * 3 < (8 :: int)
   \<and> scipy_resample all_libs = Some nearest_resample
   \<and> (\<exists>p ys q zs.
           init (Ndarray Floating [1, 2, 3 :: real]) 8 3 = Inr p
         \<and> fst (prepare all_libs ''scipy'' p) = Inr (ys, 8)
         \<and> init (Ndarray Floating ys) 8 3 = Inr q
         \<and> fst (restore all_libs ''scipy'' q) = Inr (zs, 8)
         \<and> \<bar>int (length zs) - int (length [1, 2, 3 :: real])\<bar> \<le> 1)"
proof -
  have libs: "scipy_resample all_libs = Some nearest_resample" by (simp add: all_libs_def)
  have "[1, 2, 3 :: real] \<noteq> []" and "(0 :: int) < 3" and "2 * 3 < (8 :: int)" by simp_all
  from roundtrip_length [OF this libs nearest_resample_delivers] libs show ?thesis by simp
qed

text \<open>
  C2, as the code has it. Length law for \<^verbatim>\<open>prepare\<close>. For a non-empty floating-point
  buffer of length \<open>N\<close>, a rate \<open>R > 0\<close> and a cutoff \<open>C > 0\<close>, \<^verbatim>\<open>prepare\<close> with the
  engine \<^verbatim>\<open>'scipy'\<close> asks the resampler for \<open>round (N * R / (2 * C))\<close> rows (source rate
  \<open>2 * C\<close>, destination rate \<open>R\<close>). When that count is positive (that is, when
  \<open>C < N * R\<close>) and the resampler delivers every positive count it is asked for, the
  buffer returned has exactly that length and is tagged \<open>R\<close>.
\<close>

theorem prepare_length:
  assumes "init (Ndarray Floating xs) R C = Inr self"
    and "xs \<noteq> []" and "0 < C" and "0 < R"
    and "scipy_resample L = Some rs"
    and contract: "\<And>us n. us \<noteq> [] \<Longrightarrow> 0 < n \<Longrightarrow> delivers rs us n"
    and "0 < np_round (real (length xs) * real_of_int R / (2 * real_of_int C))"
  shows "\<exists>ys. fst (prepare L ''scipy'' self) = Inr (ys, R)
            \<and> int (length ys) = np_round (real (length xs) * real_of_int R / (2 * real_of_int C))"
proof -
  have "delivers rs xs (np_round (real (length xs) * real_of_int R / (2 * real_of_int C)))"
    using assms(2,7) by (rule contract)
  with assms(1,3,4,5) show ?thesis
    using prepare_count [of xs R C self L rs] by simp
qed

theorem prepare_length_witness:
  "init (Ndarray Floating [1, 2, 3]) 8 3 = Inr clip
   \<and> [1, 2, 3 :: real] \<noteq> [] \<and> (0 :: int) < 3 \<and> (0 :: int) < 8
   \<and> scipy_resample all_libs = Some nearest_resample
   \<and> np_round (real (length [1, 2, 3 :: real]) * real_of_int 8 / (2 * real_of_int 3)) = 4
   \<and> (\<exists>ys. fst (prepare all_libs ''scipy'' clip) = Inr (ys, 8) \<and> int (length ys) = 4)"
proof -
  have i: "init (Ndarray Floating [1, 2, 3]) 8 3 = Inr clip" by (simp add: init_def clip_def)
  have libs: "scipy_resample all_libs = Some nearest_resample" by (simp add: all_libs_def)
  have n: "np_round (real (length [1, 2, 3 :: real]) * real_of_int 8 / (2 * real_of_int 3)) = 4"
    by (simp add: np_round_def)
  then have pos: "0 < np_round (real (length [1, 2, 3 :: real]) * real_of_int 8
      / (2 * real_of_int 3))"
    by simp
  from prepare_length [OF i _ _ _ libs nearest_resample_delivers pos] i libs n
  show ?thesis by simp
qed

text \<open>
  C2, as the specification states it, fails where the count rounds to zero. One sample
  at rate 1 with cutoff 1 gives \<open>1 * 1 / 2\<close>, a tie that rounds to the even neighbour 0;
  the resampler, asked for no rows, raises, and \<^verbatim>\<open>prepare\<close> returns no buffer.
\<close>

theorem prepare_length_counterexample:
  "init (Ndarray Floating [1]) 1 1 = Inr one_sample_clip
   \<and> np_round (real (length (data one_sample_clip)) * real_of_int 1 / (2 * real_of_int 1)) = 0
   \<and> fst (prepare all_libs ''scipy'' one_sample_clip) = Inl ValueError"
  by (simp add: init_def one_sample_clip_def np_round_def prepare_def resample_def
      all_libs_def nearest_resample_def)

text \<open>
  C3, as the code has it. Length law for \<^verbatim>\<open>restore\<close>. For a non-empty floating-point
  buffer of length \<open>N\<close>, a rate \<open>R > 0\<close> and a cutoff \<open>C > 0\<close>, \<^verbatim>\<open>restore\<close> with the
  engine \<^verbatim>\<open>'scipy'\<close> asks the resampler for \<open>round (N * (2 * C) / R)\<close> rows (source rate
  \<open>R\<close>, destination rate \<open>2 * C\<close>). When that count is positive (that is, when
  \<open>R < 4 * N * C\<close>) and the resampler delivers every positive count it is asked for, the
  buffer returned has exactly that length.
\<close>

theorem restore_length:
  assumes "init (Ndarray Floating xs) R C = Inr self"
    and "xs \<noteq> []" and "0 < C" and "0 < R"
    and "scipy_resample L = Some rs"
    and contract: "\<And>us n. us \<noteq> [] \<Longrightarrow> 0 < n \<Longrightarrow> delivers rs us n"
    and "0 < np_round (real (length xs) * (2 * real_of_int C) / real_of_int R)"
  shows "\<exists>ys. fst (restore L ''scipy'' self) = Inr (ys, R)
            \<and> int (length ys) = np_round (real (length xs) * (2 * real_of_int C) / real_of_int R)"
proof -
  have "delivers rs xs (np_round (real (length xs) * (2 * real_of_int C) / real_of_int R))"
    using assms(2,7) by (rule contract)
  with assms(1,3,4,5) show ?thesis
    using restore_count [of xs R C self L rs] by simp
qed

theorem restore_length_witness:
  "init (Ndarray Floating [1, 2, 3]) 8 3 = Inr clip
   \<and> [1, 2, 3 :: real] \<noteq> [] \<and> (0 :: int) < 3 \<and> (0 :: int) < 8
   \<and> scipy_resample all_libs = Some nearest_resample
   \<and> np_round (real (length [1, 2, 3 :: real]) * (2 * real_of_int 3) / real_of_int 8) = 2
   \<and> (\<exists>ys. fst (restore all_libs ''scipy'' clip) = Inr (ys, 8) \<and> int (length ys) = 2)"
proof -
  have i: "init (Ndarray Floating [1, 2, 3]) 8 3 = Inr clip" by (simp add: init_def clip_def)
  have libs: "scipy_resample all_libs = Some nearest_resample" by (simp add: all_libs_def)
  have n: "np_round (real (length [1, 2, 3 :: real]) * (2 * real_of_int 3) / real_of_int 8) = 2"
    by (simp add: np_round_def)
  then have pos: "0 < np_round (real (length [1, 2, 3 :: real]) * (2 * real_of_int 3)
      / real_of_int 8)"
    by simp
  from restore_length [OF i _ _ _ libs nearest_resample_delivers pos] i libs n
  show ?thesis by simp
qed

text \<open>
  C3, as the specification states it, fails where the count rounds to zero. One sample
  at rate 8 with cutoff 1 gives \<open>1 * 2 / 8\<close>, which rounds to 0; the resampler, asked for
  no rows, raises, and \<^verbatim>\<open>restore\<close> returns no buffer.
\<close>

theorem restore_length_counterexample:
  "init (Ndarray Floating [1]) 8 1 = Inr short_clip
   \<and> np_round (real (length (data short_clip)) * (2 * real_of_int 1) / real_of_int 8) = 0
   \<and> fst (restore all_libs ''scipy'' short_clip) = Inl ValueError"
  by (simp add: init_def short_clip_def np_round_def restore_def resample_def
      all_libs_def nearest_resample_def)

text \<open>
  The preconditions in plain arithmetic: the count of \<^verbatim>\<open>prepare\<close> is positive exactly
  when \<open>C < N * R\<close>, that of \<^verbatim>\<open>restore\<close> exactly when \<open>R < 4 * N * C\<close>.
\<close>

lemma prepare_count_positive:
  assumes "0 < C" and "0 < R"
  shows "0 < np_round (real N * real_of_int R / (2 * real_of_int C)) \<longleftrightarrow> C < int N * R"
proof -
  have "1 / 2 < real N * real_of_int R / (2 * real_of_int C)
        \<longleftrightarrow> real_of_int C < real_of_int (int N * R)"
    using assms by (simp add: field_simps)
  then show ?thesis by (simp only: np_round_pos_iff of_int_less_iff)
qed

lemma restore_count_positive:
  assumes "0 < C" and "0 < R"
  shows "0 < np_round (real N * (2 * real_of_int C) / real_of_int R) \<longleftrightarrow> R < 4 * int N * C"
proof -
  have "1 / 2 < real N * (2 * real_of_int C) / real_of_int R
        \<longleftrightarrow> real_of_int R < real_of_int (4 * int N * C)"
    using assms by (simp add: field_simps)
  then show ?thesis by (simp only: np_round_pos_iff of_int_less_iff)
qed

subsection \<open>The rate returned by restore\<close>

text \<open>
  C4. Rate tagging of \<^verbatim>\<open>restore\<close>. Whatever the buffer, the object and the engine, the
  rate in the pair that \<^verbatim>\<open>restore\<close> returns is \<^verbatim>\<open>original_sr\<close>, not the intermediate
  rate to which the buffer was resampled.
\<close>

theorem restore_rate_tag:
  assumes "fst (restore L engine self) = Inr (ys, r)"
  shows "r = original_sr self"
proof -
  let ?res = "fst (resample L (data self) (real_of_int (original_sr self))
      (intermediate_sr self) engine self)"
  have "resample L (data self) (real_of_int (original_sr self))
      (intermediate_sr self) engine self = (?res, self)"
    by (rule resample_pair)
  with assms show ?thesis
    by (cases ?res) (auto simp: restore_def Let_def split: if_splits)
qed

theorem restore_rate_tag_witness:
  "fst (restore all_libs ''soxr'' clip) = Inr ([1, 2, 3], 8)
   \<and> (8 :: int) = original_sr clip \<and> intermediate_sr clip = 6"
proof -
  have r: "fst (restore all_libs ''soxr'' clip) = Inr ([1, 2, 3], 8)" by code_simp
  from restore_rate_tag [OF r] r show ?thesis by (simp add: clip_def)
qed

subsection \<open>The filter at or above Nyquist\<close>

text \<open>
  C5. Filter no-op boundary. When the filter primitives are loaded and the cutoff is at
  least half the sample rate, \<^verbatim>\<open>_apply_zero_phase_filter\<close> returns the buffer it was
  given, whatever the number of passes.
\<close>

theorem filter_noop_at_nyquist:
  assumes "butter L \<noteq> None" and "filtfilt L \<noteq> None"
    and "real_of_int sr / 2 \<le> real_of_int (cutoff_freq self)"
  shows "fst (apply_zero_phase_filter L dat sr passes self) = Inr dat"
  using assms by (auto simp: apply_zero_phase_filter_def)

theorem filter_noop_at_nyquist_witness:
  "butter all_libs \<noteq> None \<and> filtfilt all_libs \<noteq> None
   \<and> real_of_int 6 / 2 \<le> real_of_int (cutoff_freq clip)
   \<and> fst (apply_zero_phase_filter all_libs [5, 6, 7] 6 1 clip) = Inr [5, 6, 7]"
proof -
  have b: "butter all_libs \<noteq> None" and f: "filtfilt all_libs \<noteq> None"
    by (simp_all add: all_libs_def)
  have c: "real_of_int 6 / 2 \<le> real_of_int (cutoff_freq clip)" by (simp add: clip_def)
  from filter_noop_at_nyquist [OF b f c] b f c show ?thesis by simp
qed

subsection \<open>Failures\<close>

text \<open>
  C6, as the code has it. The kernel has no check of the cutoff and no failure of the
  kind InvalidCutoff. With a cutoff of zero, \<^verbatim>\<open>restore\<close> fails for every buffer and
  engine and \<^verbatim>\<open>prepare\<close> fails with the engine \<^verbatim>\<open>'scipy'\<close>, with \<^verbatim>\<open>ImportError\<close> or
  \<^verbatim>\<open>ZeroDivisionError\<close>. With a negative cutoff, a positive rate and the engine
  \<^verbatim>\<open>'scipy'\<close>, both operations ask the resampler for a count that is zero or negative
  and pass on what it answers.
\<close>

theorem nonpositive_cutoff:
  assumes "init (Ndarray Floating xs) R C = Inr self" and "C \<le> 0"
  shows "(C = 0 \<longrightarrow>
            (\<exists>e. fst (restore L engine self) = Inl e)
          \<and> (fst (prepare L ''scipy'' self) = Inl ImportError
             \<or> fst (prepare L ''scipy'' self) = Inl ZeroDivisionError))
       \<and> (C < 0 \<and> 0 < R \<and> scipy_resample L = Some rs \<longrightarrow>
            np_round (real (length xs) * real_of_int R / (2 * real_of_int C)) \<le> 0
          \<and> fst (prepare L ''scipy'' self)
              = (case rs xs (np_round (real (length xs) * real_of_int R / (2 * real_of_int C))) of
                   Inl e \<Rightarrow> Inl e | Inr ys \<Rightarrow> Inr (ys, R))
          \<and> np_round (real (length xs) * (2 * real_of_int C) / real_of_int R) \<le> 0
          \<and> fst (restore L ''scipy'' self)
              = (case rs xs (np_round (real (length xs) * (2 * real_of_int C) / real_of_int R)) of
                   Inl e \<Rightarrow> Inl e | Inr ys \<Rightarrow> Inr (ys, R)))
       \<and> \<not> fails_with InvalidCutoff (fst (prepare L engine self))
       \<and> \<not> fails_with InvalidCutoff (fst (restore L engine self))"
proof -
  from assms(1) have self: "data self = xs" "original_sr self = R"
      "intermediate_sr self = 2 * real_of_int C"
    by (auto simp: init_floating)
  have zero_restore: "\<exists>e. fst (restore L engine self) = Inl e" if "C = 0"
  proof -
    let ?res = "fst (resample L (data self) (real_of_int (original_sr self))
        (intermediate_sr self) engine self)"
    have "resample L (data self) (real_of_int (original_sr self))
        (intermediate_sr self) engine self = (?res, self)"
      by (rule resample_pair)
    with that self show ?thesis
      by (cases ?res) (simp_all add: restore_def)
  qed
  have zero_prepare: "fst (prepare L ''scipy'' self) = Inl ImportError
      \<or> fst (prepare L ''scipy'' self) = Inl ZeroDivisionError" if "C = 0"
    using that self by (simp add: prepare_def resample_def split: option.splits)
  have neg: "np_round (real (length xs) * real_of_int R / (2 * real_of_int C)) \<le> 0
          \<and> fst (prepare L ''scipy'' self)
              = (case rs xs (np_round (real (length xs) * real_of_int R / (2 * real_of_int C))) of
                   Inl e \<Rightarrow> Inl e | Inr ys \<Rightarrow> Inr (ys, R))
          \<and> np_round (real (length xs) * (2 * real_of_int C) / real_of_int R) \<le> 0
          \<and> fst (restore L ''scipy'' self)
              = (case rs xs (np_round (real (length xs) * (2 * real_of_int C) / real_of_int R)) of
                   Inl e \<Rightarrow> Inl e | Inr ys \<Rightarrow> Inr (ys, R))"
    if "C < 0" and "0 < R" and "scipy_resample L = Some rs"
  proof -
    have "real (length xs) * real_of_int R / (2 * real_of_int C) \<le> 0"
      using that(1,2) by (simp add: divide_nonneg_neg zero_le_mult_iff divide_le_0_iff)
    then have a: "np_round (real (length xs) * real_of_int R / (2 * real_of_int C)) \<le> 0"
      by (rule np_round_nonpos)
    have "real (length xs) * (2 * real_of_int C) / real_of_int R \<le> 0"
      using that(1,2) by (simp add: divide_le_0_iff mult_le_0_iff)
    then have b: "np_round (real (length xs) * (2 * real_of_int C) / real_of_int R) \<le> 0"
      by (rule np_round_nonpos)
    from that self have nz: "original_sr self \<noteq> 0" "intermediate_sr self \<noteq> 0" by auto
    from a b prepare_scipy [OF that(3) nz, unfolded self]
      restore_scipy [OF that(3) nz, unfolded self]
    show ?thesis by simp
  qed
  from zero_restore zero_prepare neg never_invalid_cutoff show ?thesis by blast
qed

theorem nonpositive_cutoff_witness:
  "init (Ndarray Floating [1, 2, 3]) 8 0 = Inr zero_cutoff_clip
   \<and> (\<exists>e. fst (restore all_libs ''soxr'' zero_cutoff_clip) = Inl e)
   \<and> (fst (prepare all_libs ''scipy'' zero_cutoff_clip) = Inl ImportError
      \<or> fst (prepare all_libs ''scipy'' zero_cutoff_clip) = Inl ZeroDivisionError)
   \<and> init (Ndarray Floating [1, 2, 3]) 8 (- 3) = Inr negative_cutoff_clip
   \<and> scipy_resample all_libs = Some nearest_resample
   \<and> fst (prepare all_libs ''scipy'' negative_cutoff_clip)
       = (case nearest_resample [1, 2, 3 :: real] (- 4) of
            Inl e \<Rightarrow> Inl e | Inr ys \<Rightarrow> Inr (ys, 8))
   \<and> fst (prepare all_libs ''scipy'' negative_cutoff_clip) = Inl ValueError"
proof -
  have z: "init (Ndarray Floating [1, 2, 3]) 8 0 = Inr zero_cutoff_clip"
    by (simp add: init_def zero_cutoff_clip_def)
  have n: "init (Ndarray Floating [1, 2, 3]) 8 (- 3) = Inr negative_cutoff_clip"
    by (simp add: init_def negative_cutoff_clip_def)
  have libs: "scipy_resample all_libs = Some nearest_resample" by (simp add: all_libs_def)
  have r: "np_round (real (length [1, 2, 3 :: real]) * real_of_int 8 / (2 * real_of_int (- 3)))
      = - 4"
    by (simp add: np_round_def)
  have v: "nearest_resample [1, 2, 3 :: real] (- 4) = Inl ValueError"
    by (simp add: nearest_resample_def)
  from nonpositive_cutoff [OF z, of all_libs "''soxr''" nearest_resample]
    nonpositive_cutoff [OF n, of all_libs "''scipy''" nearest_resample] z n libs r v
  show ?thesis by simp
qed

text \<open>
  C6, as the specification states it, fails: a cutoff of zero is accepted by the
  constructor, and \<^verbatim>\<open>prepare\<close> then stops at the division by the intermediate rate,
  which is no InvalidCutoff.
\<close>

theorem invalid_cutoff_counterexample:
  "init (Ndarray Floating [1, 2, 3]) 8 0 = Inr zero_cutoff_clip
   \<and> fst (prepare all_libs ''scipy'' zero_cutoff_clip) = Inl ZeroDivisionError
   \<and> \<not> fails_with InvalidCutoff (fst (prepare all_libs ''scipy'' zero_cutoff_clip))"
  by (simp add: init_def zero_cutoff_clip_def prepare_def resample_def all_libs_def
      fails_with_def)

text \<open>
  C7, as the code has it. The constructor fails, with \<^verbatim>\<open>TypeError\<close>, exactly when
  \<^verbatim>\<open>data\<close> is not a NumPy array of a floating-point dtype, and before anything is
  computed; it accepts every floating-point array, the empty one too.
\<close>

theorem constructor_check:
  "(init dat R C = Inl TypeError \<longleftrightarrow> (\<forall>xs. dat \<noteq> Ndarray Floating xs))
   \<and> (fails_with InvalidInput (init dat R C) \<longleftrightarrow> (\<forall>xs. dat \<noteq> Ndarray Floating xs))
   \<and> init (Ndarray Floating xs) R C
       = Inr \<lparr>data = xs, original_sr = R, cutoff_freq = C,
               intermediate_sr = 2 * real_of_int C\<rparr>"
proof -
  have "init dat R C = Inl TypeError \<longleftrightarrow> (\<forall>xs. dat \<noteq> Ndarray Floating xs)"
  proof (cases dat)
    case (Ndarray k rows)
    then show ?thesis by (cases k) (simp_all add: init_def)
  next
    case NotNdarray
    then show ?thesis by (simp add: init_def)
  qed
  moreover have "fails_with InvalidInput (init dat R C) \<longleftrightarrow> (\<forall>xs. dat \<noteq> Ndarray Floating xs)"
  proof (cases dat)
    case (Ndarray k rows)
    then show ?thesis by (cases k) (simp_all add: init_def fails_with_def)
  next
    case NotNdarray
    then show ?thesis by (simp add: init_def fails_with_def)
  qed
  ultimately show ?thesis by (simp add: init_floating)
qed

theorem constructor_check_witness:
  "init (Ndarray SignedInteger [1, 2, 3 :: real]) 8 3 = Inl TypeError
   \<and> init (NotNdarray :: real pyobj) 8 3 = Inl TypeError
   \<and> init (Ndarray Floating ([] :: real list)) 8 3 = Inr empty_clip"
proof -
  have "\<forall>xs. Ndarray SignedInteger [1, 2, 3 :: real] \<noteq> Ndarray Floating xs" by simp
  moreover have "\<forall>xs. (NotNdarray :: real pyobj) \<noteq> Ndarray Floating xs" by simp
  ultimately show ?thesis
    using constructor_check [of "Ndarray SignedInteger [1, 2, 3 :: real]" 8 3 "[] :: real list"]
      constructor_check [of "NotNdarray :: real pyobj" 8 3 "[] :: real list"]
    by (simp add: empty_clip_def)
qed

text \<open>
  C7, as the specification states it, fails for the empty buffer: the constructor
  accepts it, and an operation on it gets as far as the choice of the engine.
\<close>

theorem empty_buffer_counterexample:
  "init (Ndarray Floating ([] :: real list)) 8 3 = Inr empty_clip
   \<and> \<not> fails_with InvalidInput (init (Ndarray Floating ([] :: real list)) 8 3)
   \<and> fst (prepare soxr_only ''scipy'' empty_clip) = Inl ImportError
   \<and> \<not> fails_with InvalidInput (fst (prepare soxr_only ''scipy'' empty_clip))"
  by (simp add: init_def empty_clip_def fails_with_def prepare_def resample_def soxr_only_def)

text \<open>
  C8. Engine selection errors. Whatever the buffer and the two rates, \<^verbatim>\<open>_resample\<close>
  fails with \<^verbatim>\<open>ImportError\<close> when the library of the requested engine is not loaded
  and with \<^verbatim>\<open>ValueError\<close> for a selector other than \<^verbatim>\<open>'scipy'\<close> and \<^verbatim>\<open>'soxr'\<close>. It
  never turns to the other engine: the result for one engine does not depend on what
  the library of the other one is.
\<close>

theorem engine_selection:
  "(scipy_resample L = None \<longrightarrow> fst (resample L dat in_sr out_sr ''scipy'' self) = Inl ImportError)
   \<and> (soxr_resample L = None \<longrightarrow> fst (resample L dat in_sr out_sr ''soxr'' self) = Inl ImportError)
   \<and> (engine \<noteq> ''scipy'' \<and> engine \<noteq> ''soxr''
        \<longrightarrow> fst (resample L dat in_sr out_sr engine self) = Inl ValueError)
   \<and> resample (L\<lparr>soxr_resample := other\<rparr>) dat in_sr out_sr ''scipy'' self
       = resample L dat in_sr out_sr ''scipy'' self
   \<and> resample (L\<lparr>scipy_resample := other'\<rparr>) dat in_sr out_sr ''soxr'' self
       = resample L dat in_sr out_sr ''soxr'' self"
  by (simp add: resample_def)

theorem engine_selection_witness:
  "scipy_resample soxr_only = None \<and> soxr_resample soxr_only \<noteq> None
   \<and> fst (resample soxr_only [1, 2, 3] 6 8 ''scipy'' clip) = Inl ImportError
   \<and> soxr_resample scipy_only = None \<and> scipy_resample scipy_only \<noteq> None
   \<and> fst (resample scipy_only [1, 2, 3] 6 8 ''soxr'' clip) = Inl ImportError
   \<and> ''fast'' \<noteq> ''scipy'' \<and> ''fast'' \<noteq> ''soxr''
   \<and> fst (resample all_libs [1, 2, 3] 6 8 ''fast'' clip) = Inl ValueError"
proof -
  have a: "scipy_resample soxr_only = None" "soxr_resample soxr_only \<noteq> None"
    by (simp_all add: soxr_only_def)
  have b: "soxr_resample scipy_only = None" "scipy_resample scipy_only \<noteq> None"
    by (simp_all add: scipy_only_def)
  have c: "''fast'' \<noteq> ''scipy''" "''fast'' \<noteq> ''soxr''" by simp_all
  from engine_selection [of soxr_only "[1, 2, 3]" 6 8 clip "''fast''"]
    engine_selection [of scipy_only "[1, 2, 3]" 6 8 clip "''fast''"]
    engine_selection [of all_libs "[1, 2, 3]" 6 8 clip "''fast''"] a b c
  show ?thesis by simp
qed

subsection \<open>The filtering stage of prepare\<close>

text \<open>
  C9. Conditional filtering in \<^verbatim>\<open>prepare\<close>. Once the resampler has returned a buffer,
  \<^verbatim>\<open>prepare\<close> runs the low-pass filter on it (at rate \<^verbatim>\<open>original_sr\<close>, cutoff
  \<^verbatim>\<open>cutoff_freq\<close>, three passes) if and only if the engine is \<^verbatim>\<open>'soxr'\<close>, and then
  returns what the filter returns. With any other engine it returns the buffer of the
  resampler as it is, and what the filter primitives are makes no difference.
\<close>

theorem prepare_filters_iff_soxr:
  assumes "fst (resample L (data self) (intermediate_sr self) (real_of_int (original_sr self))
             engine self) = Inr d"
    and "original_sr self \<noteq> 0"
  shows "(engine = ''soxr'' \<longrightarrow>
            fst (prepare L engine self)
            = (case fst (apply_zero_phase_filter L d (original_sr self) 3 self) of
                 Inl e \<Rightarrow> Inl e | Inr f \<Rightarrow> Inr (f, original_sr self)))
       \<and> (engine \<noteq> ''soxr'' \<longrightarrow>
            fst (prepare L engine self) = Inr (d, original_sr self)
          \<and> prepare (L\<lparr>butter := b, filtfilt := f\<rparr>) engine self = prepare L engine self)"
proof -
  let ?rs = "\<lambda>L. resample L (data self) (intermediate_sr self) (real_of_int (original_sr self))
             engine self"
  have rs: "?rs L = (Inr d, self)"
    using assms(1) resample_pair [of L "data self" "intermediate_sr self"
      "real_of_int (original_sr self)" engine self] by simp
  have same: "?rs (L\<lparr>butter := b, filtfilt := f\<rparr>) = ?rs L"
    by (simp add: resample_def)
  have pre: "prepare (L\<lparr>butter := b, filtfilt := f\<rparr>) engine self = prepare L engine self"
    if "engine \<noteq> ''soxr''"
    using that same rs by (simp add: prepare_def)
  have plain: "fst (prepare L engine self) = Inr (d, original_sr self)" if "engine \<noteq> ''soxr''"
    using that rs assms(2) by (simp add: prepare_def)
  let ?res = "fst (apply_zero_phase_filter L d (original_sr self) 3 self)"
  have "apply_zero_phase_filter L d (original_sr self) 3 self = (?res, self)"
    by (rule apply_zero_phase_filter_pair)
  with rs assms(2) have "fst (prepare L engine self)
            = (case ?res of Inl e \<Rightarrow> Inl e | Inr f \<Rightarrow> Inr (f, original_sr self))"
    if "engine = ''soxr''"
    using that by (cases ?res) (simp_all add: prepare_def)
  with pre plain show ?thesis by blast
qed

theorem prepare_filters_iff_soxr_witness:
  "fst (resample all_libs (data clip) (intermediate_sr clip) (real_of_int (original_sr clip))
          ''soxr'' clip) = Inr [1, 1, 2, 3]
   \<and> fst (resample all_libs (data clip) (intermediate_sr clip) (real_of_int (original_sr clip))
          ''scipy'' clip) = Inr [1, 1, 2, 3]
   \<and> original_sr clip \<noteq> 0
   \<and> fst (apply_zero_phase_filter all_libs [1, 1, 2, 3] 8 3 clip) = Inr [3 / 4, 3 / 4, 3 / 2, 9 / 4]
   \<and> fst (prepare all_libs ''soxr'' clip) = Inr ([3 / 4, 3 / 4, 3 / 2, 9 / 4], 8)
   \<and> fst (prepare all_libs ''scipy'' clip) = Inr ([1, 1, 2, 3], 8)"
proof -
  have x: "fst (resample all_libs (data clip) (intermediate_sr clip)
      (real_of_int (original_sr clip)) ''soxr'' clip) = Inr [1, 1, 2, 3]"
    by code_simp
  have y: "fst (resample all_libs (data clip) (intermediate_sr clip)
      (real_of_int (original_sr clip)) ''scipy'' clip) = Inr [1, 1, 2, 3]"
    by code_simp
  have nz: "original_sr clip \<noteq> 0" by (simp add: clip_def)
  have sr: "original_sr clip = 8" by (simp add: clip_def)
  have fl: "fst (apply_zero_phase_filter all_libs [1, 1, 2, 3] 8 3 clip)
      = Inr [3 / 4, 3 / 4, 3 / 2, 9 / 4]"
    by code_simp
  have ne: "''scipy'' \<noteq> ''soxr''" by simp
  from prepare_filters_iff_soxr [OF x nz] prepare_filters_iff_soxr [OF y nz] x y nz sr fl ne
  show ?thesis by simp
qed

subsection \<open>The object after a call\<close>

text \<open>
  C10. Context immutability. Neither \<^verbatim>\<open>prepare\<close> nor \<^verbatim>\<open>restore\<close>, with any engine,
  changes a field of the object: the object after the call is the object before it, so
  a further \<^verbatim>\<open>prepare\<close> or \<^verbatim>\<open>restore\<close> on it gives what it gives on the original.
\<close>

theorem context_unchanged:
  "snd (prepare L engine self) = self \<and> snd (restore L engine self) = self
   \<and> prepare L engine (snd (prepare L engine' self)) = prepare L engine self
   \<and> prepare L engine (snd (restore L engine' self)) = prepare L engine self
   \<and> restore L engine (snd (prepare L engine' self)) = restore L engine self
   \<and> restore L engine (snd (restore L engine' self)) = restore L engine self"
  by (simp add: snd_prepare snd_restore)

theorem context_unchanged_witness:
  "snd (prepare all_libs ''soxr'' clip) = clip \<and> snd (restore all_libs ''soxr'' clip) = clip
   \<and> prepare all_libs ''soxr'' (snd (prepare all_libs ''scipy'' clip))
       = prepare all_libs ''soxr'' clip"
  using context_unchanged [of all_libs "''soxr''" clip "''scipy''"] by simp

end
